theory Spec2Isabelle
  imports Main
begin

section \<open>Build configuration and JavaScript values\<close>

text \<open>
  The library file \<^verbatim>\<open>src/library_addfunction.js\<close> is preprocessed: \<^verbatim>\<open>ASSERTIONS\<close> is a
  level (0, 1 or 2), \<^verbatim>\<open>MEMORY64\<close> and \<^verbatim>\<open>WASM2JS\<close> are switches. Every function of the
  model takes the configuration, so each \<^verbatim>\<open>#if\<close> of the source is a branch.
\<close>

record config =
  ASSERTIONS :: nat
  MEMORY64 :: bool
  WASM2JS :: bool

text \<open>
  What the code throws. \<open>AssertionFailed\<close> carries the text handed to \<^verbatim>\<open>assert\<close>
  (empty when there is none), \<open>ThrownString\<close> the string of a \<^verbatim>\<open>throw '...'\<close>;
  \<open>RangeError\<close> and \<open>TypeError\<close> are the host's exceptions of these classes,
  \<open>HostFailure\<close> a compile or link error of the host.
\<close>

datatype error =
  AssertionFailed string
| ThrownString string
| RangeError
| TypeError
| HostFailure

text \<open>An element of a JavaScript array of byte values: a number, or \<^verbatim>\<open>undefined\<close>.\<close>

datatype jsnum = Num int | Undefined

section \<open>The integer encoder\<close>

text \<open>\<^verbatim>\<open>ToInt32\<close> of a non-negative integer, and \<^verbatim>\<open>n >> k\<close> on it.\<close>

definition ToInt32 :: "nat \<Rightarrow> int" where
  "ToInt32 n = (let m = n mod 2 ^ 32 in if 2 ^ 31 \<le> m then int m - 2 ^ 32 else int m)"

definition js_shr :: "nat \<Rightarrow> nat \<Rightarrow> int" where
  "js_shr n k = drop_bit k (ToInt32 n)"

text \<open>
  \<^verbatim>\<open>
  $uleb128Encode: function(n, target) {
  #if ASSERTIONS
    assert(n < 16384);
  #endif
    if (n < 128) { target.push(n); }
    else { target.push((n % 128) | 128, n >> 7); }
  }
  \<close>
  The array \<open>target\<close> is passed in and the array after the pushes is returned.
\<close>

definition uleb128Encode :: "config \<Rightarrow> nat \<Rightarrow> jsnum list \<Rightarrow> error + jsnum list" where
  "uleb128Encode cfg n target =
     (if 0 < ASSERTIONS cfg \<and> \<not> n < 16384 then Inl (AssertionFailed [])
      else if n < 128 then Inr (target @ [Num (int n)])
      else Inr (target @ [Num (or (int (n mod 128)) 128), Num (js_shr n 7)]))"

text \<open>
  The encoding the contract describes: unsigned LEB128, seven bits a byte, the least
  significant group first, bit 7 set on every byte but the last. \<open>uleb128_value\<close> reads
  such a sequence back.
\<close>

fun uleb128 :: "nat \<Rightarrow> nat list" where
  "uleb128 n = (if n < 128 then [n] else (n mod 128 + 128) # uleb128 (n div 128))"

declare uleb128.simps [simp del]

fun uleb128_value :: "nat list \<Rightarrow> nat" where
  "uleb128_value [] = 0"
| "uleb128_value (b # bs) = b mod 128 + 128 * uleb128_value bs"

section \<open>The signature translator\<close>

text \<open>
  The object \<^verbatim>\<open>typeNames\<close> of \<^verbatim>\<open>$sigToWasmTypes\<close>; a key it does not have reads as
  \<^verbatim>\<open>undefined\<close>, here \<open>None\<close>.
\<close>

definition typeNames :: "config \<Rightarrow> char \<Rightarrow> string option" where
  "typeNames cfg c =
     (if c = CHR ''i'' then Some ''i32''
      else if c = CHR ''j'' then Some ''i64''
      else if c = CHR ''f'' then Some ''f32''
      else if c = CHR ''d'' then Some ''f64''
      else if c = CHR ''p'' then (if MEMORY64 cfg then Some ''i64'' else Some ''i32'')
      else None)"

record wasm_type =
  parameters :: "string option list"
  results :: "string option list"

text \<open>
  The loop \<^verbatim>\<open>for (var i = 1; i < sig.length; ++i)\<close> over the characters after the first:
  under \<^verbatim>\<open>ASSERTIONS\<close> a character that is no key of \<^verbatim>\<open>typeNames\<close> fails the assertion,
  otherwise \<^verbatim>\<open>typeNames[sig[i]]\<close> is pushed, \<^verbatim>\<open>undefined\<close> included.
\<close>

fun sig_parameters :: "config \<Rightarrow> string \<Rightarrow> string option list \<Rightarrow> error + string option list" where
  "sig_parameters cfg [] acc = Inr acc"
| "sig_parameters cfg (c # cs) acc =
     (if 0 < ASSERTIONS cfg \<and> typeNames cfg c = None
      then Inl (AssertionFailed (''invalid signature char: '' @ [c]))
      else sig_parameters cfg cs (acc @ [typeNames cfg c]))"

text \<open>
  \<^verbatim>\<open>results: sig[0] == 'v' ? [] : [typeNames[sig[0]]]\<close>: on the empty string \<^verbatim>\<open>sig[0]\<close>
  is \<^verbatim>\<open>undefined\<close>, which is no key of \<^verbatim>\<open>typeNames\<close>.
\<close>

definition sigToWasmTypes :: "config \<Rightarrow> string \<Rightarrow> error + wasm_type" where
  "sigToWasmTypes cfg sig =
     (let res = (case sig of [] \<Rightarrow> [None]
                 | c # _ \<Rightarrow> if c = CHR ''v'' then [] else [typeNames cfg c])
      in case sig_parameters cfg (drop 1 sig) [] of
           Inl e \<Rightarrow> Inl e
         | Inr ps \<Rightarrow> Inr \<lparr>parameters = ps, results = res\<rparr>)"

text \<open>
  A valid signature: not empty, the first character a value tag or the void sentinel
  \<open>v\<close>, every other character a value tag (\<open>i\<close>, \<open>j\<close>, \<open>f\<close>, \<open>d\<close>, \<open>p\<close>).
\<close>

definition value_tag :: "char \<Rightarrow> bool" where
  "value_tag c = (c \<in> set ''ijfdp'')"

definition valid_sig :: "string \<Rightarrow> bool" where
  "valid_sig sig =
     (case sig of [] \<Rightarrow> False
      | r # ps \<Rightarrow> (r = CHR ''v'' \<or> value_tag r) \<and> list_all value_tag ps)"

text \<open>
  The wire type of a value tag as the data model gives it: four primitive types, and the
  address-width tag \<open>p\<close> as the 32- or 64-bit integer of the build.
\<close>

definition wire_type :: "bool \<Rightarrow> char \<Rightarrow> string" where
  "wire_type mem64 c =
     (if c = CHR ''i'' then ''i32''
      else if c = CHR ''j'' then ''i64''
      else if c = CHR ''f'' then ''f32''
      else if c = CHR ''d'' then ''f64''
      else if mem64 then ''i64'' else ''i32'')"

section \<open>The trampoline synthesizer: the bytes of the module\<close>

text \<open>The object \<^verbatim>\<open>typeCodes\<close> of \<^verbatim>\<open>$convertJsFunctionToWasm\<close>.\<close>

definition typeCodes :: "config \<Rightarrow> char \<Rightarrow> int option" where
  "typeCodes cfg c =
     (if c = CHR ''i'' then Some 0x7f
      else if c = CHR ''p'' then (if MEMORY64 cfg then Some 0x7e else Some 0x7f)
      else if c = CHR ''j'' then Some 0x7e
      else if c = CHR ''f'' then Some 0x7d
      else if c = CHR ''d'' then Some 0x7c
      else None)"

text \<open>\<^verbatim>\<open>typeCodes[k]\<close> for a string key \<open>k\<close>, as pushed into an array.\<close>

definition typeCodes_at :: "config \<Rightarrow> string \<Rightarrow> jsnum" where
  "typeCodes_at cfg k =
     (case k of [c] \<Rightarrow> (case typeCodes cfg c of Some n \<Rightarrow> Num n | None \<Rightarrow> Undefined)
      | _ \<Rightarrow> Undefined)"

text \<open>
  The loop over \<^verbatim>\<open>sigParam\<close>: under \<^verbatim>\<open>ASSERTIONS\<close> a character that is no key of
  \<^verbatim>\<open>typeCodes\<close> fails the assertion; otherwise its code (or \<^verbatim>\<open>undefined\<close>) is pushed.
\<close>

fun push_typeCodes :: "config \<Rightarrow> string \<Rightarrow> jsnum list \<Rightarrow> error + jsnum list" where
  "push_typeCodes cfg [] body = Inr body"
| "push_typeCodes cfg (c # cs) body =
     (if 0 < ASSERTIONS cfg \<and> typeCodes cfg c = None
      then Inl (AssertionFailed (''invalid signature char: '' @ [c]))
      else push_typeCodes cfg cs (body @ [typeCodes_at cfg [c]]))"

text \<open>
  The array \<^verbatim>\<open>typeSectionBody\<close> after the parameters and the return value are written
  (source lines 65 to 98).
\<close>

definition typeSectionBody :: "config \<Rightarrow> string \<Rightarrow> error + jsnum list" where
  "typeSectionBody cfg sig =
     (let sigRet = take 1 sig; sigParam = drop 1 sig
      in case uleb128Encode cfg (length sigParam) [Num 0x01, Num 0x60] of
           Inl e \<Rightarrow> Inl e
         | Inr b1 \<Rightarrow>
             (case push_typeCodes cfg sigParam b1 of
                Inl e \<Rightarrow> Inl e
              | Inr b2 \<Rightarrow>
                  Inr (if sigRet = ''v'' then b2 @ [Num 0x00]
                       else b2 @ [Num 0x01, typeCodes_at cfg sigRet])))"

definition module_header :: "int list" where
  "module_header = [0x00, 0x61, 0x73, 0x6d, 0x01, 0x00, 0x00, 0x00, 0x01]"

definition module_static :: "int list" where
  "module_static =
     [0x02, 0x07, 0x01, 0x01, 0x65, 0x01, 0x66, 0x00, 0x00,
      0x07, 0x05, 0x01, 0x01, 0x66, 0x00, 0x00]"

text \<open>The array \<^verbatim>\<open>bytes\<close> handed to \<^verbatim>\<open>new Uint8Array\<close> (source lines 101 to 118).\<close>

definition moduleBytes :: "config \<Rightarrow> string \<Rightarrow> error + jsnum list" where
  "moduleBytes cfg sig =
     (case typeSectionBody cfg sig of
        Inl e \<Rightarrow> Inl e
      | Inr body \<Rightarrow>
          (case uleb128Encode cfg (length body) (map Num module_header) of
             Inl e \<Rightarrow> Inl e
           | Inr bytes \<Rightarrow> Inr (bytes @ body @ map Num module_static)))"

text \<open>\<^verbatim>\<open>new Uint8Array(bytes)\<close>: a number modulo 256, \<^verbatim>\<open>undefined\<close> as 0.\<close>

fun toUint8 :: "jsnum \<Rightarrow> nat" where
  "toUint8 (Num n) = nat (n mod 256)"
| "toUint8 Undefined = 0"

text \<open>
  The wire format as the interface section words it, with the full unsigned LEB128
  \<open>uleb128\<close> for the two lengths. \<open>type_code\<close> is the code of a value tag.
\<close>

definition type_code :: "bool \<Rightarrow> char \<Rightarrow> nat" where
  "type_code mem64 c =
     (if c = CHR ''i'' then 0x7F
      else if c = CHR ''j'' then 0x7E
      else if c = CHR ''f'' then 0x7D
      else if c = CHR ''d'' then 0x7C
      else if mem64 then 0x7E else 0x7F)"

definition wire_type_body :: "bool \<Rightarrow> string \<Rightarrow> nat list" where
  "wire_type_body mem64 sig =
     [0x01, 0x60] @ uleb128 (length (tl sig)) @ map (type_code mem64) (tl sig) @
     (if hd sig = CHR ''v'' then [0x00] else [0x01, type_code mem64 (hd sig)])"

definition wire_module :: "bool \<Rightarrow> string \<Rightarrow> nat list" where
  "wire_module mem64 sig =
     [0x00, 0x61, 0x73, 0x6D] @ [0x01, 0x00, 0x00, 0x00] @
     [0x01] @ uleb128 (length (wire_type_body mem64 sig)) @ wire_type_body mem64 sig @
     [0x02, 0x07, 0x01, 0x01, 0x65, 0x01, 0x66, 0x00, 0x00] @
     [0x07, 0x05, 0x01, 0x01, 0x66, 0x00, 0x00]"

section \<open>Callables, the table and the state of the library\<close>

text \<open>
  A callable has an identity. \<open>WasmFunc\<close> is a function exported by a WebAssembly
  instance, \<open>JsFunc\<close> a plain JavaScript function, \<open>Wrapped n f\<close> the function object
  the host made for \<open>f\<close> (the \<open>n\<close>-th object it made), itself an exported function.
\<close>

datatype func = WasmFunc nat | JsFunc nat | Wrapped nat func

fun exported_function :: "func \<Rightarrow> bool" where
  "exported_function (WasmFunc _) = True"
| "exported_function (JsFunc _) = False"
| "exported_function (Wrapped _ _) = True"

text \<open>
  Modelled from the spec: the table collaborator \<^verbatim>\<open>wasmTable\<close> with
  \<^verbatim>\<open>getWasmTableEntry\<close> and \<^verbatim>\<open>setWasmTableEntry\<close>, which are not in the source file
  (length, get: entry or null, set: fails on a value that is no valid entry, grow: fails
  when the capacity is exceeded). An entry is \<open>None\<close> for null. An index outside the
  table is a \<open>RangeError\<close>, a value that is no exported function a \<open>TypeError\<close>,
  checked first.
\<close>

record table =
  entries :: "func option list"
  maximum :: "nat option"

definition table_get :: "table \<Rightarrow> nat \<Rightarrow> error + func option" where
  "table_get t i = (if i < length (entries t) then Inr (entries t ! i) else Inl RangeError)"

definition table_set :: "table \<Rightarrow> nat \<Rightarrow> func \<Rightarrow> error + table" where
  "table_set t i f =
     (if \<not> exported_function f then Inl TypeError
      else if i < length (entries t) then Inr (t\<lparr>entries := (entries t)[i := Some f]\<rparr>)
      else Inl RangeError)"

definition table_grow :: "table \<Rightarrow> nat \<Rightarrow> error + table" where
  "table_grow t d =
     (case maximum t of
        None \<Rightarrow> Inr (t\<lparr>entries := entries t @ replicate d None\<rparr>)
      | Some m \<Rightarrow>
          if m < length (entries t) + d then Inl RangeError
          else Inr (t\<lparr>entries := entries t @ replicate d None\<rparr>))"

text \<open>
  The host: \<open>WebAssembly_Function\<close> is \<open>None\<close> when \<^verbatim>\<open>typeof WebAssembly.Function\<close> is
  not \<^verbatim>\<open>"function"\<close>, and otherwise tells which type descriptors the constructor takes;
  \<open>WebAssembly_Module\<close> tells which byte sequences compile and instantiate.
\<close>

record host =
  WebAssembly_Function :: "(wasm_type \<Rightarrow> bool) option"
  WebAssembly_Module :: "nat list \<Rightarrow> bool"

text \<open>
  The globals: \<^verbatim>\<open>wasmTable\<close>, \<^verbatim>\<open>freeTableIndexes\<close>, \<^verbatim>\<open>functionsInTableMap\<close>
  (\<open>None\<close> while \<^verbatim>\<open>undefined\<close>), and the number of function objects the host has made.
\<close>

record state =
  wasmTable :: table
  freeTableIndexes :: "nat list"
  functionsInTableMap :: "(func \<rightharpoonup> nat) option"
  allocated :: nat

datatype 'a result = Ok 'a state | Throw error state

section \<open>The trampoline synthesizer\<close>

text \<open>
  \<^verbatim>\<open>$convertJsFunctionToWasm(func, sig)\<close>. Under \<^verbatim>\<open>WASM2JS\<close> it returns \<open>func\<close>. With
  \<^verbatim>\<open>WebAssembly.Function\<close> it hands \<^verbatim>\<open>sigToWasmTypes(sig)\<close> to that constructor.
  Otherwise it builds the bytes, and compiles and instantiates them. A signature that is
  \<^verbatim>\<open>undefined\<close> (\<open>None\<close>) makes \<^verbatim>\<open>sig[0]\<close> and \<^verbatim>\<open>sig.slice\<close> a \<open>TypeError\<close>.
  The function object made is the next one of the host.
\<close>

definition convertJsFunctionToWasm ::
  "host \<Rightarrow> config \<Rightarrow> func \<Rightarrow> string option \<Rightarrow> state \<Rightarrow> func result" where
  "convertJsFunctionToWasm h cfg fn sig s =
     (if WASM2JS cfg then Ok fn s
      else case WebAssembly_Function h of
        Some ctor \<Rightarrow>
          (case sig of
             None \<Rightarrow> Throw TypeError s
           | Some sg \<Rightarrow>
               (case sigToWasmTypes cfg sg of
                  Inl e \<Rightarrow> Throw e s
                | Inr ty \<Rightarrow>
                    if ctor ty
                    then Ok (Wrapped (allocated s) fn) (s\<lparr>allocated := Suc (allocated s)\<rparr>)
                    else Throw TypeError s))
      | None \<Rightarrow>
          (case sig of
             None \<Rightarrow> Throw TypeError s
           | Some sg \<Rightarrow>
               (case moduleBytes cfg sg of
                  Inl e \<Rightarrow> Throw e s
                | Inr bytes \<Rightarrow>
                    if WebAssembly_Module h (map toUint8 bytes)
                    then Ok (Wrapped (allocated s) fn) (s\<lparr>allocated := Suc (allocated s)\<rparr>)
                    else Throw HostFailure s)))"

section \<open>The slot allocator\<close>

text \<open>
  \<^verbatim>\<open>
  $getEmptyTableSlot: function() {
    if (freeTableIndexes.length) { return freeTableIndexes.pop(); }
    try { wasmTable.grow(1); }
    catch (err) {
      if (!(err instanceof RangeError)) { throw err; }
      throw 'Unable to grow wasm table. Set ALLOW_TABLE_GROWTH.';
    }
    return wasmTable.length - 1;
  }
  \<close>
\<close>

definition getEmptyTableSlot :: "state \<Rightarrow> nat result" where
  "getEmptyTableSlot s =
     (if freeTableIndexes s \<noteq> []
      then Ok (last (freeTableIndexes s)) (s\<lparr>freeTableIndexes := butlast (freeTableIndexes s)\<rparr>)
      else case table_grow (wasmTable s) 1 of
             Inl err \<Rightarrow>
               if err \<noteq> RangeError then Throw err s
               else Throw (ThrownString ''Unable to grow wasm table. Set ALLOW_TABLE_GROWTH.'') s
           | Inr t \<Rightarrow> Ok (length (entries t) - 1) (s\<lparr>wasmTable := t\<rparr>))"

section \<open>The registry\<close>

text \<open>
  \<^verbatim>\<open>
  $updateTableMap: function(offset, count) {
    for (var i = offset; i < offset + count; i++) {
      var item = getWasmTableEntry(i);
      if (item) { functionsInTableMap.set(item, i); }
    }
  }
  \<close>
  The recursion is on the number of indices left. \<^verbatim>\<open>functionsInTableMap.set\<close> on
  \<^verbatim>\<open>undefined\<close> is a \<open>TypeError\<close>.
\<close>

fun updateTableMap :: "nat \<Rightarrow> nat \<Rightarrow> state \<Rightarrow> unit result" where
  "updateTableMap offset 0 s = Ok () s"
| "updateTableMap offset (Suc count) s =
     (case table_get (wasmTable s) offset of
        Inl e \<Rightarrow> Throw e s
      | Inr None \<Rightarrow> updateTableMap (Suc offset) count s
      | Inr (Some item) \<Rightarrow>
          (case functionsInTableMap s of
             None \<Rightarrow> Throw TypeError s
           | Some m \<Rightarrow>
               updateTableMap (Suc offset) count
                 (s\<lparr>functionsInTableMap := Some (m(item \<mapsto> offset))\<rparr>)))"

text \<open>
  The \<^verbatim>\<open>try\<close>/\<^verbatim>\<open>catch\<close> of \<^verbatim>\<open>$addFunction\<close> (source lines 200 to 212): the callable is
  set at \<open>ret\<close>; on a \<open>TypeError\<close> the signature is asserted to be there, the callable
  is converted and the wrapper is set at \<open>ret\<close>. Any other error of the first
  \<^verbatim>\<open>setWasmTableEntry\<close> is thrown again. The text of the assertion ends with the source
  text of the callable, which the model leaves out.
\<close>

definition setNewValue ::
  "host \<Rightarrow> config \<Rightarrow> nat \<Rightarrow> func \<Rightarrow> string option \<Rightarrow> state \<Rightarrow> unit result" where
  "setNewValue h cfg ret fn sig s =
     (case table_set (wasmTable s) ret fn of
        Inr t \<Rightarrow> Ok () (s\<lparr>wasmTable := t\<rparr>)
      | Inl err \<Rightarrow>
          if err \<noteq> TypeError then Throw err s
          else if 0 < ASSERTIONS cfg \<and> sig = None
          then Throw (AssertionFailed ''Missing signature argument to addFunction: '') s
          else (case convertJsFunctionToWasm h cfg fn sig s of
                  Throw e s' \<Rightarrow> Throw e s'
                | Ok wrapped s' \<Rightarrow>
                    (case table_set (wasmTable s') ret wrapped of
                       Inl e \<Rightarrow> Throw e s'
                     | Inr t \<Rightarrow> Ok () (s'\<lparr>wasmTable := t\<rparr>))))"

text \<open>
  The first lines of \<^verbatim>\<open>$addFunction\<close> (178 to 181): the map is created and filled from
  the whole table when it is still \<^verbatim>\<open>undefined\<close>.
\<close>

definition createMapOnFirstUse :: "state \<Rightarrow> unit result" where
  "createMapOnFirstUse s =
     (if functionsInTableMap s = None
      then updateTableMap 0 (length (entries (wasmTable s)))
             (s\<lparr>functionsInTableMap := Some Map.empty\<rparr>)
      else Ok () s)"

text \<open>
  \<^verbatim>\<open>$addFunction(func, sig)\<close>. The assertion \<^verbatim>\<open>typeof func != 'undefined'\<close> holds for every
  value of type \<open>func\<close>. Under \<^verbatim>\<open>ASSERTIONS >= 2\<close> the callable must not be an entry of
  the table when the map does not have it.
\<close>

definition addFunction ::
  "host \<Rightarrow> config \<Rightarrow> func \<Rightarrow> string option \<Rightarrow> state \<Rightarrow> nat result" where
  "addFunction h cfg fn sig s =
     (case createMapOnFirstUse s of
        Throw e s1 \<Rightarrow> Throw e s1
      | Ok _ s1 \<Rightarrow>
          (case functionsInTableMap s1 of
             None \<Rightarrow> Throw TypeError s1
           | Some m \<Rightarrow>
               (case m fn of
                  Some i \<Rightarrow> Ok i s1
                | None \<Rightarrow>
                    if 2 \<le> ASSERTIONS cfg \<and> Some fn \<in> set (entries (wasmTable s1))
                    then Throw (AssertionFailed
                                  ''function in Table but not functionsInTableMap'') s1
                    else
                      (case getEmptyTableSlot s1 of
                         Throw e s2 \<Rightarrow> Throw e s2
                       | Ok ret s2 \<Rightarrow>
                           (case setNewValue h cfg ret fn sig s2 of
                              Throw e s3 \<Rightarrow> Throw e s3
                            | Ok _ s3 \<Rightarrow>
                                (case functionsInTableMap s3 of
                                   None \<Rightarrow> Throw TypeError s3
                                 | Some m' \<Rightarrow>
                                     Ok ret (s3\<lparr>functionsInTableMap :=
                                                  Some (m'(fn \<mapsto> ret))\<rparr>)))))))"

text \<open>
  \<^verbatim>\<open>
  $removeFunction: function(index) {
    functionsInTableMap.delete(getWasmTableEntry(index));
    freeTableIndexes.push(index);
  }
  \<close>
  The method is read off \<^verbatim>\<open>functionsInTableMap\<close> before the argument is evaluated, a
  \<open>TypeError\<close> while the map is \<^verbatim>\<open>undefined\<close>. Deleting the key null changes nothing.
\<close>

definition removeFunction :: "nat \<Rightarrow> state \<Rightarrow> unit result" where
  "removeFunction index s =
     (case functionsInTableMap s of
        None \<Rightarrow> Throw TypeError s
      | Some m \<Rightarrow>
          (case table_get (wasmTable s) index of
             Inl e \<Rightarrow> Throw e s
           | Inr item \<Rightarrow>
               Ok () (s\<lparr>functionsInTableMap :=
                          Some (case item of None \<Rightarrow> m | Some f \<Rightarrow> m(f := None)),
                        freeTableIndexes := freeTableIndexes s @ [index]\<rparr>)))"

section \<open>The registry as a mapping\<close>

text \<open>
  What a scan of the table records: every entry that is not null, with its index, a
  later index replacing an earlier one. The registry of a state is the map, or, while
  the map is not yet created, what the first registration will record.
\<close>

fun scan_from :: "nat \<Rightarrow> func option list \<Rightarrow> (func \<rightharpoonup> nat) \<Rightarrow> (func \<rightharpoonup> nat)" where
  "scan_from i [] m = m"
| "scan_from i (None # es) m = scan_from (Suc i) es m"
| "scan_from i (Some f # es) m = scan_from (Suc i) es (m(f \<mapsto> i))"

definition registry :: "state \<Rightarrow> (func \<rightharpoonup> nat)" where
  "registry s =
     (case functionsInTableMap s of
        Some m \<Rightarrow> m
      | None \<Rightarrow> scan_from 0 (entries (wasmTable s)) Map.empty)"

text \<open>The state at program start over a given table.\<close>

definition initial_state :: "table \<Rightarrow> nat \<Rightarrow> state" where
  "initial_state t n =
     \<lparr>wasmTable = t, freeTableIndexes = [], functionsInTableMap = None, allocated = n\<rparr>"

text \<open>
  When \<^verbatim>\<open>convertJsFunctionToWasm\<close> returns a wrapper: not under \<^verbatim>\<open>WASM2JS\<close>, the
  signature is there, its translation raises no assertion, and the host takes the type
  descriptor or the module bytes.
\<close>

definition wrappable :: "host \<Rightarrow> config \<Rightarrow> string option \<Rightarrow> bool" where
  "wrappable h cfg sig =
     (\<not> WASM2JS cfg \<and>
      (case sig of
         None \<Rightarrow> False
       | Some sg \<Rightarrow>
           (case WebAssembly_Function h of
              Some ctor \<Rightarrow> (case sigToWasmTypes cfg sg of Inl _ \<Rightarrow> False | Inr ty \<Rightarrow> ctor ty)
            | None \<Rightarrow>
                (case moduleBytes cfg sg of
                   Inl _ \<Rightarrow> False
                 | Inr bytes \<Rightarrow> WebAssembly_Module h (map toUint8 bytes)))))"

text \<open>
  A callable that exists when the host has made \<open>n\<close> function objects: it is not a
  wrapper the host has yet to make.
\<close>

fun made_before :: "nat \<Rightarrow> func \<Rightarrow> bool" where
  "made_before n (Wrapped j _) = (j < n)"
| "made_before n _ = True"

text \<open>
  When a registration can go through: a slot is to be had (the last released index, if
  there is one, lies in the table; otherwise the table can grow by one entry), and the
  callable is already registered, or it passes the check of \<^verbatim>\<open>ASSERTIONS >= 2\<close> and the
  table takes it or its wrapper.
\<close>

definition slot_available :: "state \<Rightarrow> bool" where
  "slot_available s =
     (if freeTableIndexes s \<noteq> []
      then last (freeTableIndexes s) < length (entries (wasmTable s))
      else (case maximum (wasmTable s) of
              None \<Rightarrow> True
            | Some m \<Rightarrow> length (entries (wasmTable s)) < m))"

definition registrable :: "host \<Rightarrow> config \<Rightarrow> func \<Rightarrow> string option \<Rightarrow> state \<Rightarrow> bool" where
  "registrable h cfg fn sig s =
     (registry s fn \<noteq> None \<or>
      (\<not> (2 \<le> ASSERTIONS cfg \<and> Some fn \<in> set (entries (wasmTable s))) \<and>
       slot_available s \<and>
       (exported_function fn \<or> wrappable h cfg sig)))"

text \<open>
  A host for the examples: no \<^verbatim>\<open>WebAssembly.Function\<close>, every module compiles. The
  examples run a build without assertions over the empty table that may grow.
\<close>

definition fallback_host :: host where
  "fallback_host = \<lparr>WebAssembly_Function = None, WebAssembly_Module = (\<lambda>bytes. True)\<rparr>"

definition release_build :: config where
  "release_build = \<lparr>ASSERTIONS = 0, MEMORY64 = False, WASM2JS = False\<rparr>"

definition empty_table :: table where
  "empty_table = \<lparr>entries = [], maximum = None\<rparr>"

text \<open>
  The states of an example run: a JavaScript function is registered with signature
  \<^verbatim>\<open>"v"\<close> (\<open>js_added\<close>), a WebAssembly function is registered after it (\<open>both_added\<close>);
  or slot 0 is released (\<open>js_removed\<close>) and a WebAssembly function is registered then
  (\<open>slot_reused\<close>). \<open>full_table\<close> is the start over a table of one entry that cannot
  grow.
\<close>

definition js_added :: state where
  "js_added =
     \<lparr>wasmTable = \<lparr>entries = [Some (Wrapped 0 (JsFunc 0))], maximum = None\<rparr>,
      freeTableIndexes = [],
      functionsInTableMap = Some (Map.empty(JsFunc 0 \<mapsto> 0)),
      allocated = 1\<rparr>"

definition both_added :: state where
  "both_added =
     \<lparr>wasmTable = \<lparr>entries = [Some (Wrapped 0 (JsFunc 0)), Some (WasmFunc 1)],
                    maximum = None\<rparr>,
      freeTableIndexes = [],
      functionsInTableMap = Some (Map.empty(JsFunc 0 \<mapsto> 0, WasmFunc 1 \<mapsto> 1)),
      allocated = 1\<rparr>"

definition js_removed :: state where
  "js_removed = js_added\<lparr>freeTableIndexes := [0]\<rparr>"

definition slot_reused :: state where
  "slot_reused =
     \<lparr>wasmTable = \<lparr>entries = [Some (WasmFunc 1)], maximum = None\<rparr>,
      freeTableIndexes = [],
      functionsInTableMap = Some (Map.empty(JsFunc 0 \<mapsto> 0, WasmFunc 1 \<mapsto> 0)),
      allocated = 1\<rparr>"

definition full_table :: state where
  "full_table = initial_state \<lparr>entries = [Some (WasmFunc 0)], maximum = Some 1\<rparr> 0"

section \<open>Properties of the integer encoder\<close>

lemma or_take_bit_exp: "or (take_bit k (x::int)) (2 ^ k) = take_bit k x + 2 ^ k"
  by (rule disjunctive_add[symmetric]) (auto simp: bit_take_bit_iff bit_exp_iff)

lemma or_mod_128: "or (int (n mod 128)) 128 = int (n mod 128 + 128)"
  using or_take_bit_exp[of 7 "int n"] by (simp add: take_bit_eq_mod zmod_int)

lemma js_shr_7_small: "n < 16384 \<Longrightarrow> js_shr n 7 = int (n div 128)"
  by (simp add: js_shr_def ToInt32_def Let_def drop_bit_eq_div zdiv_int)

lemma uleb128_small:
  "n < 16384 \<Longrightarrow> uleb128 n = (if n < 128 then [n] else [n mod 128 + 128, n div 128])"
proof -
  assume "n < 16384"
  then have "n div 128 < 128" by simp
  then show ?thesis by (simp add: uleb128.simps[of n] uleb128.simps[of "n div 128"])
qed

lemma uleb128_value_inv: "uleb128_value (uleb128 n) = n"
  by (induction n rule: uleb128.induct) (subst uleb128.simps, simp)

lemma uleb128_not_Nil: "uleb128 n \<noteq> []"
  by (subst uleb128.simps) simp

lemma uleb128_continuation: "b \<in> set (butlast (uleb128 n)) \<Longrightarrow> 128 \<le> b \<and> b < 256"
proof (induction n rule: uleb128.induct)
  case (1 n)
  show ?case
  proof (cases "n < 128")
    case True
    with 1(2) show ?thesis by (simp add: uleb128.simps[of n])
  next
    case False
    from 1(2) False have "b = n mod 128 + 128 \<or> b \<in> set (butlast (uleb128 (n div 128)))"
      by (simp add: uleb128.simps[of n] uleb128_not_Nil)
    with 1(1)[OF False] show ?thesis by auto
  qed
qed

lemma uleb128_last: "last (uleb128 n) < 128"
proof (induction n rule: uleb128.induct)
  case (1 n)
  show ?case
  proof (cases "n < 128")
    case True
    then show ?thesis by (simp add: uleb128.simps[of n])
  next
    case False
    with 1[OF False] show ?thesis by (simp add: uleb128.simps[of n] uleb128_not_Nil)
  qed
qed

lemma uleb128Encode_small:
  "n < 16384 \<Longrightarrow>
   uleb128Encode cfg n target = Inr (target @ map (\<lambda>b. Num (int b)) (uleb128 n))"
  by (simp add: uleb128Encode_def uleb128_small or_mod_128 js_shr_7_small)

text \<open>
  Claim C7. \<^verbatim>\<open>uleb128Encode(n, target)\<close> appends to \<open>target\<close>, for \<open>n\<close> = 0, 1, 127, 128,
  129 and 16383, the bytes [0], [1], [127], [0x80, 1], [0x81, 1] and [0xFF, 0x7F]. For
  every \<open>n\<close> below \<open>2^14\<close> it appends the unsigned LEB128 encoding of \<open>n\<close> and does nothing
  else: the appended bytes read back as \<open>n\<close> with seven bits a byte, the least
  significant group first, every byte but the last has bit 7 set, and the last has not.
\<close>

theorem uleb128Encode_appends_encoding:
  assumes "n < 16384"
  shows "uleb128Encode cfg 0 target = Inr (target @ [Num 0])
     \<and> uleb128Encode cfg 1 target = Inr (target @ [Num 1])
     \<and> uleb128Encode cfg 127 target = Inr (target @ [Num 127])
     \<and> uleb128Encode cfg 128 target = Inr (target @ [Num 0x80, Num 1])
     \<and> uleb128Encode cfg 129 target = Inr (target @ [Num 0x81, Num 1])
     \<and> uleb128Encode cfg 16383 target = Inr (target @ [Num 0xFF, Num 0x7F])
     \<and> uleb128Encode cfg n target = Inr (target @ map (\<lambda>b. Num (int b)) (uleb128 n))
     \<and> uleb128_value (uleb128 n) = n
     \<and> (\<forall>b \<in> set (butlast (uleb128 n)). 128 \<le> b \<and> b < 256)
     \<and> last (uleb128 n) < 128"
proof -
  have six: "uleb128Encode cfg 0 target = Inr (target @ [Num 0])"
    "uleb128Encode cfg 1 target = Inr (target @ [Num 1])"
    "uleb128Encode cfg 127 target = Inr (target @ [Num 127])"
    "uleb128Encode cfg 128 target = Inr (target @ [Num 0x80, Num 1])"
    "uleb128Encode cfg 129 target = Inr (target @ [Num 0x81, Num 1])"
    "uleb128Encode cfg 16383 target = Inr (target @ [Num 0xFF, Num 0x7F])"
    by (simp_all add: uleb128Encode_small uleb128_small)
  have gen: "uleb128Encode cfg n target = Inr (target @ map (\<lambda>b. Num (int b)) (uleb128 n))"
    using assms by (rule uleb128Encode_small)
  from six gen uleb128_value_inv[of n] uleb128_last[of n] uleb128_continuation[of _ n]
  show ?thesis by blast
qed

text \<open>The theorem at \<open>n = 300\<close>, appended to the first two bytes of a type section.\<close>

theorem uleb128Encode_appends_encoding_witness:
  "(300::nat) < 16384
   \<and> uleb128Encode \<lparr>ASSERTIONS = 1, MEMORY64 = False, WASM2JS = False\<rparr> 300 [Num 1, Num 96]
       = Inr [Num 1, Num 96, Num 172, Num 2]
   \<and> uleb128_value [172, 2] = 300"
  using uleb128Encode_appends_encoding
          [of 300 "\<lparr>ASSERTIONS = 1, MEMORY64 = False, WASM2JS = False\<rparr>" "[Num 1, Num 96]"]
  by (simp add: uleb128_small)

section \<open>Properties of the signature translator\<close>

lemma typeNames_tag: "value_tag c \<Longrightarrow> typeNames cfg c = Some (wire_type (MEMORY64 cfg) c)"
  by (auto simp: value_tag_def typeNames_def wire_type_def)

lemma typeNames_None: "typeNames cfg c = None \<longleftrightarrow> \<not> value_tag c"
  by (auto simp: value_tag_def typeNames_def)

lemma sig_parameters_tags:
  "list_all value_tag cs \<Longrightarrow>
   sig_parameters cfg cs acc = Inr (acc @ map (\<lambda>c. Some (wire_type (MEMORY64 cfg) c)) cs)"
  by (induction cs arbitrary: acc) (simp_all add: typeNames_tag)

lemma sig_parameters_unchecked:
  "ASSERTIONS cfg = 0 \<Longrightarrow> sig_parameters cfg cs acc = Inr (acc @ map (typeNames cfg) cs)"
  by (induction cs arbitrary: acc) simp_all

lemma sig_parameters_invalid:
  "0 < ASSERTIONS cfg \<Longrightarrow> list_all value_tag pre \<Longrightarrow> \<not> value_tag c \<Longrightarrow>
   sig_parameters cfg (pre @ c # post) acc =
     Inl (AssertionFailed (''invalid signature char: '' @ [c]))"
  by (induction pre arbitrary: acc) (simp_all add: typeNames_None)

text \<open>
  Claim C8. \<^verbatim>\<open>sigToWasmTypes\<close> of \<^verbatim>\<open>"vii"\<close> gives the parameters [i32, i32] and no result,
  of \<^verbatim>\<open>"ifd"\<close> the parameters [f32, f64] and the result [i32]. For every valid signature
  the results are empty when the first character is \<open>v\<close> and otherwise the one wire type
  of the first character, and the parameters are the wire types of the other characters
  in order.
\<close>

theorem sigToWasmTypes_valid_signature:
  assumes "valid_sig sig"
  shows "sigToWasmTypes cfg ''vii''
           = Inr \<lparr>parameters = [Some ''i32'', Some ''i32''], results = []\<rparr>
     \<and> sigToWasmTypes cfg ''ifd''
           = Inr \<lparr>parameters = [Some ''f32'', Some ''f64''], results = [Some ''i32'']\<rparr>
     \<and> sigToWasmTypes cfg sig =
         Inr \<lparr>parameters = map (\<lambda>c. Some (wire_type (MEMORY64 cfg) c)) (tl sig),
              results = (if hd sig = CHR ''v'' then []
                         else [Some (wire_type (MEMORY64 cfg) (hd sig))])\<rparr>"
proof -
  have 1: "sigToWasmTypes cfg ''vii''
             = Inr \<lparr>parameters = [Some ''i32'', Some ''i32''], results = []\<rparr>"
    by (simp add: sigToWasmTypes_def typeNames_def)
  have 2: "sigToWasmTypes cfg ''ifd''
             = Inr \<lparr>parameters = [Some ''f32'', Some ''f64''], results = [Some ''i32'']\<rparr>"
    by (simp add: sigToWasmTypes_def typeNames_def)
  from assms obtain r ps where sig: "sig = r # ps" and r: "r = CHR ''v'' \<or> value_tag r"
    and ps: "list_all value_tag ps"
    by (auto simp: valid_sig_def split: list.splits)
  have 3: "sigToWasmTypes cfg sig =
         Inr \<lparr>parameters = map (\<lambda>c. Some (wire_type (MEMORY64 cfg) c)) (tl sig),
              results = (if hd sig = CHR ''v'' then []
                         else [Some (wire_type (MEMORY64 cfg) (hd sig))])\<rparr>"
    using r ps by (auto simp: sig sigToWasmTypes_def sig_parameters_tags typeNames_tag)
  from 1 2 3 show ?thesis by blast
qed

text \<open>The theorem at the signature \<^verbatim>\<open>"jpd"\<close> in a 64-bit build.\<close>

theorem sigToWasmTypes_valid_signature_witness:
  "valid_sig ''jpd'' \<and>
   sigToWasmTypes \<lparr>ASSERTIONS = 1, MEMORY64 = True, WASM2JS = False\<rparr> ''jpd''
     = Inr \<lparr>parameters = [Some ''i64'', Some ''f64''], results = [Some ''i64'']\<rparr>"
  using sigToWasmTypes_valid_signature
          [of "''jpd''" "\<lparr>ASSERTIONS = 1, MEMORY64 = True, WASM2JS = False\<rparr>"]
  by (simp add: valid_sig_def value_tag_def wire_type_def)

section \<open>Properties of the module bytes\<close>

lemma typeCodes_None: "typeCodes cfg c = None \<longleftrightarrow> \<not> value_tag c"
  by (auto simp: value_tag_def typeCodes_def)

lemma typeCodes_tag:
  "value_tag c \<Longrightarrow> typeCodes cfg c = Some (int (type_code (MEMORY64 cfg) c))"
  by (auto simp: value_tag_def typeCodes_def type_code_def)

lemma typeCodes_at_tag:
  "value_tag c \<Longrightarrow> typeCodes_at cfg [c] = Num (int (type_code (MEMORY64 cfg) c))"
  by (simp add: typeCodes_at_def typeCodes_tag)

lemma push_typeCodes_tags:
  "list_all value_tag cs \<Longrightarrow>
   push_typeCodes cfg cs body =
     Inr (body @ map (\<lambda>c. Num (int (type_code (MEMORY64 cfg) c))) cs)"
  by (induction cs arbitrary: body) (simp_all add: typeCodes_tag typeCodes_at_tag)

lemma push_typeCodes_invalid:
  "0 < ASSERTIONS cfg \<Longrightarrow> list_all value_tag pre \<Longrightarrow> \<not> value_tag c \<Longrightarrow>
   push_typeCodes cfg (pre @ c # post) body =
     Inl (AssertionFailed (''invalid signature char: '' @ [c]))"
  by (induction pre arbitrary: body) (simp_all add: typeCodes_None)

lemma typeSectionBody_valid:
  assumes "valid_sig sig" and "length (tl sig) < 16384"
  shows "typeSectionBody cfg sig =
           Inr (map (\<lambda>b. Num (int b)) (wire_type_body (MEMORY64 cfg) sig))"
proof -
  from assms(1) obtain r ps where sig: "sig = r # ps" and r: "r = CHR ''v'' \<or> value_tag r"
    and ps: "list_all value_tag ps"
    by (auto simp: valid_sig_def split: list.splits)
  from assms(2) have n: "length ps < 16384" by (simp add: sig)
  show ?thesis
    using r ps
    by (auto simp: sig typeSectionBody_def wire_type_body_def uleb128Encode_small[OF n]
        push_typeCodes_tags typeCodes_at_tag o_def)
qed

lemma length_uleb128_small: "n < 16384 \<Longrightarrow> length (uleb128 n) \<le> 2"
  by (simp add: uleb128_small)

lemma length_wire_type_body:
  "length (wire_type_body m sig) =
     2 + length (uleb128 (length (tl sig))) + length (tl sig) +
     (if hd sig = CHR ''v'' then 1 else 2)"
  by (simp add: wire_type_body_def)

lemma moduleBytes_valid:
  assumes "valid_sig sig" and "length (tl sig) < 16384"
    and "length (wire_type_body (MEMORY64 cfg) sig) < 16384"
  shows "moduleBytes cfg sig = Inr (map (\<lambda>b. Num (int b)) (wire_module (MEMORY64 cfg) sig))"
  using assms(3)
  by (simp add: moduleBytes_def typeSectionBody_valid[OF assms(1,2)] uleb128Encode_small
      wire_module_def module_header_def module_static_def)

lemma uleb128_byte: "b \<in> set (uleb128 n) \<Longrightarrow> b < 256"
proof -
  assume b: "b \<in> set (uleb128 n)"
  have "uleb128 n = butlast (uleb128 n) @ [last (uleb128 n)]"
    by (simp add: uleb128_not_Nil)
  then have "set (uleb128 n) = set (butlast (uleb128 n)) \<union> {last (uleb128 n)}"
    by (metis list.simps(15) set_append empty_set)
  with b have "b \<in> set (butlast (uleb128 n)) \<or> b = last (uleb128 n)"
    by auto
  then show ?thesis using uleb128_continuation[of b n] uleb128_last[of n] by auto
qed

lemma type_code_byte: "type_code m c < 256"
  by (simp add: type_code_def)

lemma wire_module_bytes: "b \<in> set (wire_module m sig) \<Longrightarrow> b < 256"
  by (auto simp: wire_module_def wire_type_body_def type_code_byte
      dest: uleb128_byte split: if_splits)

lemma toUint8_bytes:
  "\<forall>b \<in> set bs. b < 256 \<Longrightarrow> map toUint8 (map (\<lambda>b. Num (int b)) bs) = bs"
  by (induction bs) (simp_all add: nat_mod_distrib)

lemma valid_sig_long: "valid_sig (CHR ''v'' # replicate 16379 (CHR ''i''))"
  by (simp add: valid_sig_def value_tag_def list_all_iff)

lemma length_wire_type_body_long:
  "length (wire_type_body m (CHR ''v'' # replicate 16379 (CHR ''i''))) = 16384"
  by (simp add: wire_type_body_def uleb128_small)

lemma uleb128_16384: "uleb128 16384 = [128, 128, 1]"
  using uleb128_small[of 1] by (simp add: uleb128.simps[of 16384] uleb128.simps[of 128])

text \<open>
  Claim C5 as stated fails. Without \<^verbatim>\<open>ASSERTIONS\<close> the signature \<^verbatim>\<open>"vx"\<close> is translated
  with no error, the unknown character giving the parameter type \<^verbatim>\<open>undefined\<close>; with
  \<^verbatim>\<open>ASSERTIONS\<close> the error for \<open>x\<close> at position 1 of \<^verbatim>\<open>"ix"\<close> and at position 2 of
  \<^verbatim>\<open>"iix"\<close> is the same value, so it does not name the position.
\<close>

theorem sigToWasmTypes_unknown_char_counterexample:
  "sigToWasmTypes \<lparr>ASSERTIONS = 0, MEMORY64 = False, WASM2JS = False\<rparr> ''vx''
     = Inr \<lparr>parameters = [None], results = []\<rparr>
   \<and> sigToWasmTypes \<lparr>ASSERTIONS = 1, MEMORY64 = False, WASM2JS = False\<rparr> ''ix''
     = Inl (AssertionFailed ''invalid signature char: x'')
   \<and> sigToWasmTypes \<lparr>ASSERTIONS = 1, MEMORY64 = False, WASM2JS = False\<rparr> ''iix''
     = Inl (AssertionFailed ''invalid signature char: x'')"
  by (simp add: sigToWasmTypes_def typeNames_def)

text \<open>
  Claim C5, amended. Let \<open>c\<close> be the first character after the result position that is
  no value tag. In a build with \<^verbatim>\<open>ASSERTIONS\<close>, \<^verbatim>\<open>sigToWasmTypes\<close> fails with the assertion
  text \<^verbatim>\<open>invalid signature char: \<close> followed by \<open>c\<close> (the character, not its position),
  and so does the construction of the module bytes when there are fewer than \<open>2^14\<close>
  parameters. In a build without \<^verbatim>\<open>ASSERTIONS\<close> no error is signalled: the translation
  returns, and the wire type of \<open>c\<close> is \<^verbatim>\<open>undefined\<close>.
\<close>

theorem sigToWasmTypes_invalid_parameter_char:
  assumes "tl sig = pre @ c # post" and "list_all value_tag pre" and "\<not> value_tag c"
  shows "(0 < ASSERTIONS cfg \<longrightarrow>
            sigToWasmTypes cfg sig = Inl (AssertionFailed (''invalid signature char: '' @ [c])) \<and>
            (length (tl sig) < 16384 \<longrightarrow>
               moduleBytes cfg sig = Inl (AssertionFailed (''invalid signature char: '' @ [c]))))
       \<and> (ASSERTIONS cfg = 0 \<longrightarrow>
            sigToWasmTypes cfg sig =
              Inr \<lparr>parameters = map (typeNames cfg) (tl sig),
                   results = (case sig of [] \<Rightarrow> [None]
                              | r # _ \<Rightarrow> if r = CHR ''v'' then [] else [typeNames cfg r])\<rparr>
            \<and> typeNames cfg c = None)"
proof -
  have d: "drop (Suc 0) sig = pre @ c # post" using assms(1) by (simp add: drop_Suc)
  have a: "sigToWasmTypes cfg sig = Inl (AssertionFailed (''invalid signature char: '' @ [c]))"
    if "0 < ASSERTIONS cfg"
    using that assms by (simp add: sigToWasmTypes_def d sig_parameters_invalid)
  have b: "moduleBytes cfg sig = Inl (AssertionFailed (''invalid signature char: '' @ [c]))"
    if "0 < ASSERTIONS cfg" "length (tl sig) < 16384"
  proof -
    have "length (pre @ c # post) < 16384" using that(2) assms(1) by simp
    then have "uleb128Encode cfg (length (pre @ c # post)) [Num 0x01, Num 0x60]
        = Inr ([Num 0x01, Num 0x60] @
               map (\<lambda>b. Num (int b)) (uleb128 (length (pre @ c # post))))"
      by (rule uleb128Encode_small)
    then show ?thesis
      using that(1) assms(2,3)
      by (simp add: moduleBytes_def typeSectionBody_def d push_typeCodes_invalid)
  qed
  have c: "sigToWasmTypes cfg sig =
              Inr \<lparr>parameters = map (typeNames cfg) (tl sig),
                   results = (case sig of [] \<Rightarrow> [None]
                              | r # _ \<Rightarrow> if r = CHR ''v'' then [] else [typeNames cfg r])\<rparr>"
    if "ASSERTIONS cfg = 0"
    using that by (simp add: sigToWasmTypes_def sig_parameters_unchecked drop_Suc)
  from a b c assms(3) show ?thesis by (simp add: typeNames_None)
qed

text \<open>The theorem at \<^verbatim>\<open>"vix"\<close>, with and without \<^verbatim>\<open>ASSERTIONS\<close>.\<close>

theorem sigToWasmTypes_invalid_parameter_char_witness:
  "tl ''vix'' = ''i'' @ CHR ''x'' # [] \<and> list_all value_tag ''i'' \<and> \<not> value_tag (CHR ''x'')
   \<and> sigToWasmTypes \<lparr>ASSERTIONS = 1, MEMORY64 = False, WASM2JS = False\<rparr> ''vix''
       = Inl (AssertionFailed ''invalid signature char: x'')
   \<and> moduleBytes \<lparr>ASSERTIONS = 1, MEMORY64 = False, WASM2JS = False\<rparr> ''vix''
       = Inl (AssertionFailed ''invalid signature char: x'')
   \<and> sigToWasmTypes \<lparr>ASSERTIONS = 0, MEMORY64 = False, WASM2JS = False\<rparr> ''vix''
       = Inr \<lparr>parameters = [Some ''i32'', None], results = []\<rparr>"
  using sigToWasmTypes_invalid_parameter_char
          [of "''vix''" "''i''" "CHR ''x''" "[]"
              "\<lparr>ASSERTIONS = 1, MEMORY64 = False, WASM2JS = False\<rparr>"]
        sigToWasmTypes_invalid_parameter_char
          [of "''vix''" "''i''" "CHR ''x''" "[]"
              "\<lparr>ASSERTIONS = 0, MEMORY64 = False, WASM2JS = False\<rparr>"]
  by (simp add: value_tag_def typeNames_def)

text \<open>
  Claim C6 as stated fails for long signatures: with a void result and 16379 parameters
  the body of the type section has \<open>2^14\<close> bytes, and the length prefix the code writes
  is not its unsigned LEB128 encoding (without \<^verbatim>\<open>ASSERTIONS\<close>), or the assertion of
  \<^verbatim>\<open>uleb128Encode\<close> fails (with \<^verbatim>\<open>ASSERTIONS\<close>).
\<close>

theorem moduleBytes_long_signature_counterexample:
  "valid_sig (CHR ''v'' # replicate 16379 (CHR ''i''))
   \<and> moduleBytes \<lparr>ASSERTIONS = 0, MEMORY64 = False, WASM2JS = False\<rparr>
         (CHR ''v'' # replicate 16379 (CHR ''i''))
      \<noteq> Inr (map (\<lambda>b. Num (int b))
               (wire_module False (CHR ''v'' # replicate 16379 (CHR ''i''))))
   \<and> moduleBytes \<lparr>ASSERTIONS = 1, MEMORY64 = False, WASM2JS = False\<rparr>
         (CHR ''v'' # replicate 16379 (CHR ''i''))
      = Inl (AssertionFailed [])"
proof -
  let ?sig = "CHR ''v'' # replicate 16379 (CHR ''i'')"
  let ?c0 = "\<lparr>ASSERTIONS = 0, MEMORY64 = False, WASM2JS = False\<rparr>"
  let ?c1 = "\<lparr>ASSERTIONS = 1, MEMORY64 = False, WASM2JS = False\<rparr>"
  have n: "length (tl ?sig) < 16384" by simp
  have b0: "typeSectionBody ?c0 ?sig = Inr (map (\<lambda>b. Num (int b)) (wire_type_body False ?sig))"
    using typeSectionBody_valid[OF valid_sig_long n, of ?c0] by simp
  have b1: "typeSectionBody ?c1 ?sig = Inr (map (\<lambda>b. Num (int b)) (wire_type_body False ?sig))"
    using typeSectionBody_valid[OF valid_sig_long n, of ?c1] by simp
  have m1: "moduleBytes ?c1 ?sig = Inl (AssertionFailed [])"
    using b1 by (simp add: moduleBytes_def length_wire_type_body_long uleb128Encode_def)
  obtain bs where m0: "moduleBytes ?c0 ?sig = Inr bs" and l0: "length bs = 16411"
    using b0
    by (simp add: moduleBytes_def length_wire_type_body_long uleb128Encode_def
        module_header_def module_static_def)
  have l: "length (map (\<lambda>b. Num (int b)) (wire_module False ?sig)) = 16412"
    by (simp add: wire_module_def length_wire_type_body_long uleb128_16384)
  from m0 l0 l
  have "moduleBytes ?c0 ?sig \<noteq> Inr (map (\<lambda>b. Num (int b)) (wire_module False ?sig))"
    by auto
  with valid_sig_long m1 show ?thesis by blast
qed

text \<open>
  Claim C6, amended. For every valid signature whose type section body is shorter than
  \<open>2^14\<close> bytes (at most 16378 parameters with a void result, 16377 otherwise), the
  array \<^verbatim>\<open>bytes\<close> of the fallback path, and the \<^verbatim>\<open>Uint8Array\<close> made of it, is exactly the
  wire format: magic, version, the type section (code 01, length, count 01, form 60,
  parameter count, one code a parameter, then 00 or 01 and the result code), the fixed
  import section and the fixed export section.
\<close>

theorem moduleBytes_wire_format:
  assumes "valid_sig sig"
    and "length sig + (if hd sig = CHR ''v'' then 0 else 1) \<le> 16379"
  shows "moduleBytes cfg sig = Inr (map (\<lambda>b. Num (int b)) (wire_module (MEMORY64 cfg) sig))
     \<and> map toUint8 (map (\<lambda>b. Num (int b)) (wire_module (MEMORY64 cfg) sig))
         = wire_module (MEMORY64 cfg) sig"
proof -
  from assms(1) have ne: "sig \<noteq> []" by (auto simp: valid_sig_def)
  then have len: "length sig = length (tl sig) + 1" by (cases sig) simp_all
  define k :: nat where "k = (if hd sig = CHR ''v'' then 0 else 1)"
  from assms(2) have b: "length sig + k \<le> 16379" by (simp add: k_def)
  from b len have n: "length (tl sig) < 16384" by linarith
  have "length (wire_type_body (MEMORY64 cfg) sig)
          = 2 + length (uleb128 (length (tl sig))) + length (tl sig) + (k + 1)"
    by (simp add: length_wire_type_body k_def)
  with b len length_uleb128_small[OF n]
  have "length (wire_type_body (MEMORY64 cfg) sig) < 16384" by linarith
  with assms(1) n
  have "moduleBytes cfg sig = Inr (map (\<lambda>b. Num (int b)) (wire_module (MEMORY64 cfg) sig))"
    by (rule moduleBytes_valid)
  moreover have "map toUint8 (map (\<lambda>b. Num (int b)) (wire_module (MEMORY64 cfg) sig))
         = wire_module (MEMORY64 cfg) sig"
    by (rule toUint8_bytes) (simp add: wire_module_bytes)
  ultimately show ?thesis by blast
qed

text \<open>The theorem at \<^verbatim>\<open>"ip"\<close> in a 32-bit build: the 32 bytes of the module.\<close>

theorem moduleBytes_wire_format_witness:
  "valid_sig ''ip'' \<and> length ''ip'' + (if hd ''ip'' = CHR ''v'' then 0 else 1) \<le> 16379
   \<and> moduleBytes \<lparr>ASSERTIONS = 1, MEMORY64 = False, WASM2JS = False\<rparr> ''ip''
       = Inr (map Num [0x00, 0x61, 0x73, 0x6D, 0x01, 0x00, 0x00, 0x00,
                       0x01, 0x06, 0x01, 0x60, 0x01, 0x7F, 0x01, 0x7F,
                       0x02, 0x07, 0x01, 0x01, 0x65, 0x01, 0x66, 0x00, 0x00,
                       0x07, 0x05, 0x01, 0x01, 0x66, 0x00, 0x00])"
  using moduleBytes_wire_format
          [of "''ip''" "\<lparr>ASSERTIONS = 1, MEMORY64 = False, WASM2JS = False\<rparr>"]
  by (simp add: valid_sig_def value_tag_def wire_module_def wire_type_body_def
      type_code_def uleb128_small)

section \<open>Properties of the registry and the slot allocator\<close>

lemma updateTableMap_scan:
  "functionsInTableMap s = Some m \<Longrightarrow> offset + count \<le> length (entries (wasmTable s)) \<Longrightarrow>
   updateTableMap offset count s =
     Ok () (s\<lparr>functionsInTableMap :=
               Some (scan_from offset (take count (drop offset (entries (wasmTable s)))) m)\<rparr>)"
proof (induction count arbitrary: offset s m)
  case 0
  then show ?case by simp
next
  case (Suc count)
  let ?es = "entries (wasmTable s)"
  from Suc.prems(2) have lt: "offset < length ?es" by simp
  then have tk: "take (Suc count) (drop offset ?es) = ?es ! offset # take count (drop (Suc offset) ?es)"
    by (simp add: take_Suc_conv_app_nth Cons_nth_drop_Suc[symmetric])
  show ?case
  proof (cases "?es ! offset")
    case None
    with Suc.IH[of s m "Suc offset"] Suc.prems lt tk show ?thesis
      by (simp add: table_get_def)
  next
    case (Some f)
    let ?s' = "s\<lparr>functionsInTableMap := Some (m(f \<mapsto> offset))\<rparr>"
    have "updateTableMap (Suc offset) count ?s' =
       Ok () (?s'\<lparr>functionsInTableMap :=
               Some (scan_from (Suc offset) (take count (drop (Suc offset) (entries (wasmTable ?s')))) (m(f \<mapsto> offset)))\<rparr>)"
    proof (rule Suc.IH[of ?s' "m(f \<mapsto> offset)" "Suc offset"])
      show "functionsInTableMap ?s' = Some (m(f \<mapsto> offset))" by simp
      show "Suc offset + count \<le> length (entries (wasmTable ?s'))" using Suc.prems(2) by simp
    qed
    with Some Suc.prems lt tk show ?thesis
      by (simp add: table_get_def)
  qed
qed

lemma createMapOnFirstUse_registry:
  "createMapOnFirstUse s = Ok () (s\<lparr>functionsInTableMap := Some (registry s)\<rparr>)"
proof (cases "functionsInTableMap s")
  case None
  then show ?thesis
    using updateTableMap_scan[of "s\<lparr>functionsInTableMap := Some Map.empty\<rparr>" Map.empty 0
        "length (entries (wasmTable s))"]
    by (simp add: createMapOnFirstUse_def registry_def)
next
  case (Some m)
  then show ?thesis by (simp add: createMapOnFirstUse_def registry_def)
qed

lemma addFunction_registered:
  "registry s fn = Some i \<Longrightarrow>
   addFunction h cfg fn sg s = Ok i (s\<lparr>functionsInTableMap := Some (registry s)\<rparr>)"
  by (simp add: addFunction_def createMapOnFirstUse_registry)

lemma addFunction_already:
  "functionsInTableMap s = Some m \<Longrightarrow> m fn = Some i \<Longrightarrow> addFunction h cfg fn sg s = Ok i s"
  by (simp add: addFunction_def createMapOnFirstUse_def)

lemma convertJsFunctionToWasm_Ok:
  "convertJsFunctionToWasm h cfg fn sg s = Ok w s' \<Longrightarrow>
   wasmTable s' = wasmTable s \<and> functionsInTableMap s' = functionsInTableMap s \<and>
   freeTableIndexes s' = freeTableIndexes s"
  by (auto simp: convertJsFunctionToWasm_def split: if_splits option.splits sum.splits)

lemma convertJsFunctionToWasm_Throw:
  "convertJsFunctionToWasm h cfg fn sg s = Throw e s' \<Longrightarrow> s' = s"
  by (auto simp: convertJsFunctionToWasm_def split: if_splits option.splits sum.splits)

lemma table_set_Inr:
  "table_set t i f = Inr t' \<Longrightarrow>
   i < length (entries t) \<and> exported_function f \<and> t' = t\<lparr>entries := (entries t)[i := Some f]\<rparr>"
  by (auto simp: table_set_def split: if_splits)

lemma setNewValue_Ok:
  assumes "setNewValue h cfg ret fn sg s = Ok u s'"
  shows "ret < length (entries (wasmTable s)) \<and>
     (\<exists>v. wasmTable s' = (wasmTable s)\<lparr>entries := (entries (wasmTable s))[ret := Some v]\<rparr>) \<and>
     functionsInTableMap s' = functionsInTableMap s \<and> freeTableIndexes s' = freeTableIndexes s"
proof (cases "table_set (wasmTable s) ret fn")
  case (Inr t)
  with assms table_set_Inr[OF Inr] show ?thesis by (auto simp: setNewValue_def)
next
  case (Inl err)
  with assms obtain w s1 where c: "convertJsFunctionToWasm h cfg fn sg s = Ok w s1"
    by (auto simp: setNewValue_def split: if_splits result.splits)
  with assms Inl obtain t where t: "table_set (wasmTable s1) ret w = Inr t" and s': "s' = s1\<lparr>wasmTable := t\<rparr>"
    by (auto simp: setNewValue_def split: if_splits sum.splits)
  from convertJsFunctionToWasm_Ok[OF c] table_set_Inr[OF t] s' show ?thesis by auto
qed

lemma setNewValue_Throw:
  assumes "setNewValue h cfg ret fn sg s = Throw e s'"
  shows "wasmTable s' = wasmTable s \<and> functionsInTableMap s' = functionsInTableMap s \<and>
     freeTableIndexes s' = freeTableIndexes s"
proof (cases "table_set (wasmTable s) ret fn")
  case (Inr t)
  with assms show ?thesis by (simp add: setNewValue_def)
next
  case (Inl err)
  show ?thesis
  proof (cases "convertJsFunctionToWasm h cfg fn sg s")
    case (Ok w s1)
    with assms Inl convertJsFunctionToWasm_Ok[OF Ok] show ?thesis
      by (auto simp: setNewValue_def split: if_splits sum.splits)
  next
    case (Throw e1 s1)
    with assms Inl convertJsFunctionToWasm_Throw[OF Throw] show ?thesis
      by (auto simp: setNewValue_def split: if_splits)
  qed
qed

lemma getEmptyTableSlot_Ok:
  assumes "getEmptyTableSlot s = Ok ret s'"
  shows "functionsInTableMap s' = functionsInTableMap s \<and> allocated s' = allocated s \<and>
     ((freeTableIndexes s \<noteq> [] \<and> ret = last (freeTableIndexes s) \<and>
       freeTableIndexes s' = butlast (freeTableIndexes s) \<and> wasmTable s' = wasmTable s) \<or>
      (freeTableIndexes s = [] \<and> ret = length (entries (wasmTable s)) \<and>
       freeTableIndexes s' = [] \<and>
       wasmTable s' = (wasmTable s)\<lparr>entries := entries (wasmTable s) @ [None]\<rparr>))"
  using assms
  by (auto simp: getEmptyTableSlot_def table_grow_def split: if_splits sum.splits option.splits)

lemma getEmptyTableSlot_Throw:
  "getEmptyTableSlot s = Throw e s' \<Longrightarrow> s' = s"
  by (auto simp: getEmptyTableSlot_def split: if_splits sum.splits)

lemma addFunction_unseen:
  "registry s fn = None \<Longrightarrow>
   addFunction h cfg fn sg s =
     (if 2 \<le> ASSERTIONS cfg \<and> Some fn \<in> set (entries (wasmTable s))
      then Throw (AssertionFailed ''function in Table but not functionsInTableMap'')
             (s\<lparr>functionsInTableMap := Some (registry s)\<rparr>)
      else (case getEmptyTableSlot (s\<lparr>functionsInTableMap := Some (registry s)\<rparr>) of
              Throw e s2 \<Rightarrow> Throw e s2
            | Ok ret s2 \<Rightarrow>
                (case setNewValue h cfg ret fn sg s2 of
                   Throw e s3 \<Rightarrow> Throw e s3
                 | Ok _ s3 \<Rightarrow>
                     Ok ret (s3\<lparr>functionsInTableMap := Some ((registry s)(fn \<mapsto> ret))\<rparr>))))"
proof -
  assume u: "registry s fn = None"
  let ?s1 = "s\<lparr>functionsInTableMap := Some (registry s)\<rparr>"
  have a: "addFunction h cfg fn sg s =
     (if 2 \<le> ASSERTIONS cfg \<and> Some fn \<in> set (entries (wasmTable s))
      then Throw (AssertionFailed ''function in Table but not functionsInTableMap'') ?s1
      else (case getEmptyTableSlot ?s1 of
              Throw e s2 \<Rightarrow> Throw e s2
            | Ok ret s2 \<Rightarrow>
                (case setNewValue h cfg ret fn sg s2 of
                   Throw e s3 \<Rightarrow> Throw e s3
                 | Ok _ s3 \<Rightarrow>
                    (case functionsInTableMap s3 of
                       None \<Rightarrow> Throw TypeError s3
                     | Some m' \<Rightarrow> Ok ret (s3\<lparr>functionsInTableMap := Some (m'(fn \<mapsto> ret))\<rparr>)))))"
    using u by (simp add: addFunction_def createMapOnFirstUse_registry)
  show ?thesis
  proof (cases "getEmptyTableSlot ?s1")
    case (Throw e s2)
    then show ?thesis by (simp add: a)
  next
    case (Ok ret s2)
    note g = this
    show ?thesis
    proof (cases "setNewValue h cfg ret fn sg s2")
      case (Throw e s3)
      with g show ?thesis by (simp add: a)
    next
      case (Ok x s3)
      from getEmptyTableSlot_Ok[OF g] setNewValue_Ok[OF Ok]
      have "functionsInTableMap s3 = Some (registry s)" by simp
      with g Ok show ?thesis by (simp add: a)
    qed
  qed
qed

lemma addFunction_Ok_cases:
  assumes "addFunction h cfg fn sg s = Ok k s'"
  shows "(registry s fn = Some k \<and> s' = s\<lparr>functionsInTableMap := Some (registry s)\<rparr>) \<or>
     (registry s fn = None \<and>
      (\<exists>s2 s3. getEmptyTableSlot (s\<lparr>functionsInTableMap := Some (registry s)\<rparr>) = Ok k s2 \<and>
         setNewValue h cfg k fn sg s2 = Ok () s3 \<and>
         s' = s3\<lparr>functionsInTableMap := Some ((registry s)(fn \<mapsto> k))\<rparr>))"
proof (cases "registry s fn")
  case (Some i)
  with assms show ?thesis by (simp add: addFunction_registered)
next
  case None
  with assms show ?thesis
    by (auto simp: addFunction_unseen split: if_splits result.splits)
qed

lemma addFunction_Throw_cases:
  assumes "addFunction h cfg fn sg s = Throw e s'"
  shows "registry s fn = None \<and>
     ((s' = s\<lparr>functionsInTableMap := Some (registry s)\<rparr>) \<or>
      (\<exists>ret s2. getEmptyTableSlot (s\<lparr>functionsInTableMap := Some (registry s)\<rparr>) = Ok ret s2 \<and>
         setNewValue h cfg ret fn sg s2 = Throw e s'))"
proof (cases "registry s fn")
  case (Some i)
  with assms show ?thesis by (simp add: addFunction_registered)
next
  case None
  with assms show ?thesis
    by (auto simp: addFunction_unseen split: if_splits result.splits dest: getEmptyTableSlot_Throw)
qed

lemma convertJsFunctionToWasm_wrappable:
  "wrappable h cfg sg \<Longrightarrow>
   convertJsFunctionToWasm h cfg fn sg s =
     Ok (Wrapped (allocated s) fn) (s\<lparr>allocated := Suc (allocated s)\<rparr>)"
  by (auto simp: wrappable_def convertJsFunctionToWasm_def split: option.splits sum.splits)

lemma setNewValue_placed:
  assumes "ret < length (entries (wasmTable s))"
    and "exported_function fn \<or> wrappable h cfg sg"
  shows "\<exists>s' v. setNewValue h cfg ret fn sg s = Ok () s' \<and>
     (v = fn \<or> v = Wrapped (allocated s) fn) \<and>
     entries (wasmTable s') = (entries (wasmTable s))[ret := Some v] \<and>
     maximum (wasmTable s') = maximum (wasmTable s) \<and>
     freeTableIndexes s' = freeTableIndexes s \<and>
     functionsInTableMap s' = functionsInTableMap s \<and>
     allocated s \<le> allocated s' \<and> allocated s' \<le> Suc (allocated s)"
proof (cases "exported_function fn")
  case True
  with assms(1) show ?thesis by (auto simp: setNewValue_def table_set_def)
next
  case False
  with assms(2) have w: "wrappable h cfg sg" by simp
  then have sg: "sg \<noteq> None" by (auto simp: wrappable_def split: option.splits)
  from False assms(1) sg show ?thesis
    by (auto simp: setNewValue_def table_set_def convertJsFunctionToWasm_wrappable[OF w])
qed

lemma addFunction_unseen_grows:
  assumes "registry s fn = None"
    and "2 \<le> ASSERTIONS cfg \<longrightarrow> Some fn \<notin> set (entries (wasmTable s))"
    and "exported_function fn \<or> wrappable h cfg sg"
    and "freeTableIndexes s = []"
    and "case maximum (wasmTable s) of None \<Rightarrow> True | Some m \<Rightarrow> length (entries (wasmTable s)) < m"
  shows "\<exists>s' v. addFunction h cfg fn sg s = Ok (length (entries (wasmTable s))) s' \<and>
     (v = fn \<or> v = Wrapped (allocated s) fn) \<and>
     entries (wasmTable s') = entries (wasmTable s) @ [Some v] \<and>
     maximum (wasmTable s') = maximum (wasmTable s) \<and>
     freeTableIndexes s' = [] \<and>
     functionsInTableMap s' = Some ((registry s)(fn \<mapsto> length (entries (wasmTable s)))) \<and>
     allocated s \<le> allocated s' \<and> allocated s' \<le> Suc (allocated s)"
proof -
  let ?s1 = "s\<lparr>functionsInTableMap := Some (registry s)\<rparr>"
  let ?k = "length (entries (wasmTable s))"
  let ?s2 = "?s1\<lparr>wasmTable := (wasmTable s)\<lparr>entries := entries (wasmTable s) @ [None]\<rparr>\<rparr>"
  have g: "getEmptyTableSlot ?s1 = Ok ?k ?s2"
    using assms(4,5) by (auto simp: getEmptyTableSlot_def table_grow_def split: option.splits)
  have "?k < length (entries (wasmTable ?s2))" by simp
  from setNewValue_placed[OF this assms(3)] obtain s3 v where
    p: "setNewValue h cfg ?k fn sg ?s2 = Ok () s3" and
    v: "v = fn \<or> v = Wrapped (allocated s) fn" and
    r: "entries (wasmTable s3) = (entries (wasmTable ?s2))[?k := Some v]"
      "maximum (wasmTable s3) = maximum (wasmTable ?s2)"
      "freeTableIndexes s3 = freeTableIndexes ?s2"
      "allocated ?s2 \<le> allocated s3" "allocated s3 \<le> Suc (allocated ?s2)"
    by auto
  let ?s' = "s3\<lparr>functionsInTableMap := Some ((registry s)(fn \<mapsto> ?k))\<rparr>"
  have "addFunction h cfg fn sg s = Ok ?k ?s'"
    using assms(1,2) g p by (auto simp: addFunction_unseen)
  moreover have "entries (wasmTable ?s') = entries (wasmTable s) @ [Some v]"
    using r(1) by simp
  ultimately show ?thesis using v r assms(4) by auto
qed

lemma addFunction_unseen_reuses:
  assumes "registry s fn = None"
    and "2 \<le> ASSERTIONS cfg \<longrightarrow> Some fn \<notin> set (entries (wasmTable s))"
    and "exported_function fn \<or> wrappable h cfg sg"
    and "freeTableIndexes s = fs @ [k]"
    and "k < length (entries (wasmTable s))"
  shows "\<exists>s' v. addFunction h cfg fn sg s = Ok k s' \<and>
     (v = fn \<or> v = Wrapped (allocated s) fn) \<and>
     entries (wasmTable s') = (entries (wasmTable s))[k := Some v] \<and>
     maximum (wasmTable s') = maximum (wasmTable s) \<and>
     freeTableIndexes s' = fs \<and>
     functionsInTableMap s' = Some ((registry s)(fn \<mapsto> k)) \<and>
     allocated s \<le> allocated s' \<and> allocated s' \<le> Suc (allocated s)"
proof -
  let ?s1 = "s\<lparr>functionsInTableMap := Some (registry s)\<rparr>"
  let ?s2 = "?s1\<lparr>freeTableIndexes := fs\<rparr>"
  have g: "getEmptyTableSlot ?s1 = Ok k ?s2"
    using assms(4) by (simp add: getEmptyTableSlot_def)
  have "k < length (entries (wasmTable ?s2))" using assms(5) by simp
  from setNewValue_placed[OF this assms(3)] obtain s3 v where
    p: "setNewValue h cfg k fn sg ?s2 = Ok () s3" and
    v: "v = fn \<or> v = Wrapped (allocated s) fn" and
    r: "entries (wasmTable s3) = (entries (wasmTable ?s2))[k := Some v]"
      "maximum (wasmTable s3) = maximum (wasmTable ?s2)"
      "freeTableIndexes s3 = freeTableIndexes ?s2"
      "allocated ?s2 \<le> allocated s3" "allocated s3 \<le> Suc (allocated ?s2)"
    by auto
  let ?s' = "s3\<lparr>functionsInTableMap := Some ((registry s)(fn \<mapsto> k))\<rparr>"
  have "addFunction h cfg fn sg s = Ok k ?s'"
    using assms(1,2) g p by (auto simp: addFunction_unseen)
  then show ?thesis using v r by auto
qed

lemma addFunction_registrable:
  assumes "registrable h cfg fn sg s"
  shows "\<exists>k s'. addFunction h cfg fn sg s = Ok k s'"
proof (cases "registry s fn")
  case (Some i)
  then show ?thesis by (simp add: addFunction_registered)
next
  case None
  with assms have t: "2 \<le> ASSERTIONS cfg \<longrightarrow> Some fn \<notin> set (entries (wasmTable s))"
    and a: "slot_available s" and p: "exported_function fn \<or> wrappable h cfg sg"
    by (auto simp: registrable_def)
  show ?thesis
  proof (cases "freeTableIndexes s = []")
    case True
    with a have "case maximum (wasmTable s) of None \<Rightarrow> True
        | Some m \<Rightarrow> length (entries (wasmTable s)) < m"
      by (simp add: slot_available_def)
    from addFunction_unseen_grows[OF None t p True this] show ?thesis by blast
  next
    case False
    then have f: "freeTableIndexes s = butlast (freeTableIndexes s) @ [last (freeTableIndexes s)]"
      by simp
    from a False have "last (freeTableIndexes s) < length (entries (wasmTable s))"
      by (simp add: slot_available_def)
    from addFunction_unseen_reuses[OF None t p f this] show ?thesis by blast
  qed
qed

lemma made_before_not_Wrapped: "made_before n f \<Longrightarrow> n \<le> j \<Longrightarrow> f \<noteq> Wrapped j g"
  by (cases f) auto

lemma not_exported_not_Wrapped: "\<not> exported_function f \<Longrightarrow> f \<noteq> Wrapped j g"
  by (cases f) auto

lemma registry_initial_empty: "registry (initial_state \<lparr>entries = [], maximum = mx\<rparr> n) = Map.empty"
  by (simp add: registry_def initial_state_def)

subsection \<open>The example run\<close>

lemma wrappable_v: "wrappable fallback_host release_build (Some ''v'')"
  by (simp add: wrappable_def fallback_host_def release_build_def moduleBytes_def
      typeSectionBody_def uleb128Encode_def)

lemmas run_defs = addFunction_def createMapOnFirstUse_def getEmptyTableSlot_def table_grow_def
  setNewValue_def table_set_def table_get_def removeFunction_def initial_state_def
  empty_table_def convertJsFunctionToWasm_wrappable[OF wrappable_v]

lemma run_add_js:
  "addFunction fallback_host release_build (JsFunc 0) (Some ''v'')
     (initial_state empty_table 0) = Ok 0 js_added"
  by (simp add: run_defs js_added_def)

lemma run_add_wasm_after_js:
  "addFunction fallback_host release_build (WasmFunc 1) None js_added = Ok 1 both_added"
  by (simp add: run_defs js_added_def both_added_def)

lemma run_remove_js: "removeFunction 0 js_added = Ok () js_removed"
  by (simp add: run_defs js_added_def js_removed_def)

lemma run_add_wasm_after_remove:
  "addFunction fallback_host release_build (WasmFunc 1) None js_removed = Ok 0 slot_reused"
  by (simp add: run_defs js_added_def js_removed_def slot_reused_def)

lemma run_add_js_again:
  "addFunction fallback_host release_build (JsFunc 0) (Some ''v'') slot_reused
     = Ok 0 slot_reused"
  by (simp add: run_defs slot_reused_def)

subsection \<open>Registration\<close>

text \<open>
  Claim C2. For every callable that can be registered (with a valid signature or any
  other), \<^verbatim>\<open>addFunction(f, s)\<close> returns a slot, and calling it again with the same
  callable, with no \<^verbatim>\<open>removeFunction\<close> in between, returns the same slot and changes
  nothing: the table, the free list and the map are as the first call left them.
\<close>

theorem addFunction_twice_same_slot:
  assumes "registrable h cfg fn sg s"
  shows "\<exists>k s'. addFunction h cfg fn sg s = Ok k s' \<and> addFunction h cfg fn sg' s' = Ok k s'"
proof -
  from addFunction_registrable[OF assms] obtain k s' where
    a: "addFunction h cfg fn sg s = Ok k s'"
    by blast
  from addFunction_Ok_cases[OF a]
  obtain m where "functionsInTableMap s' = Some m" and "m fn = Some k"
    by auto
  then have "addFunction h cfg fn sg' s' = Ok k s'" by (rule addFunction_already)
  with a show ?thesis by blast
qed

text \<open>The theorem at the JavaScript function of the example run.\<close>

theorem addFunction_twice_same_slot_witness:
  "registrable fallback_host release_build (JsFunc 0) (Some ''v'') (initial_state empty_table 0)
   \<and> addFunction fallback_host release_build (JsFunc 0) (Some ''v'')
       (initial_state empty_table 0) = Ok 0 js_added
   \<and> addFunction fallback_host release_build (JsFunc 0) (Some ''v'') js_added = Ok 0 js_added"
proof -
  have c: "ASSERTIONS release_build = 0" by (simp add: release_build_def)
  have r: "registrable fallback_host release_build (JsFunc 0) (Some ''v'')
             (initial_state empty_table 0)"
    by (simp add: registrable_def slot_available_def wrappable_v initial_state_def
        empty_table_def c)
  from addFunction_twice_same_slot[OF r, of "Some ''v''"] run_add_js r
  show ?thesis by auto
qed

text \<open>
  Claim C10. A call \<^verbatim>\<open>addFunction(f, sig)\<close> that returns slot \<open>k\<close> leaves every table
  entry at an index other than \<open>k\<close> as it was (the table may have grown by the one
  entry \<open>k\<close>), also when this call creates the map by scanning the table; when \<open>f\<close> is
  already registered the table is unchanged. A call that throws leaves every entry the
  table had as it was.
\<close>

theorem addFunction_changes_only_returned_slot:
  "(addFunction h cfg fn sg s = Ok k s' \<longrightarrow>
      length (entries (wasmTable s)) \<le> length (entries (wasmTable s')) \<and>
      (\<forall>i < length (entries (wasmTable s)). i \<noteq> k \<longrightarrow>
         entries (wasmTable s') ! i = entries (wasmTable s) ! i) \<and>
      (registry s fn \<noteq> None \<longrightarrow> wasmTable s' = wasmTable s))
   \<and> (addFunction h cfg fn sg s = Throw e s' \<longrightarrow>
      registry s fn = None \<and>
      take (length (entries (wasmTable s))) (entries (wasmTable s')) = entries (wasmTable s))"
proof (intro conjI impI)
  assume a: "addFunction h cfg fn sg s = Ok k s'"
  let ?s1 = "s\<lparr>functionsInTableMap := Some (registry s)\<rparr>"
  from addFunction_Ok_cases[OF a]
  consider (seen) "registry s fn = Some k" "s' = ?s1"
    | (unseen) s2 s3 where "registry s fn = None" "getEmptyTableSlot ?s1 = Ok k s2"
        "setNewValue h cfg k fn sg s2 = Ok () s3"
        "s' = s3\<lparr>functionsInTableMap := Some ((registry s)(fn \<mapsto> k))\<rparr>"
    by blast
  then have "length (entries (wasmTable s)) \<le> length (entries (wasmTable s')) \<and>
      (\<forall>i < length (entries (wasmTable s)). i \<noteq> k \<longrightarrow>
         entries (wasmTable s') ! i = entries (wasmTable s) ! i) \<and>
      (registry s fn \<noteq> None \<longrightarrow> wasmTable s' = wasmTable s)"
  proof cases
    case seen
    then show ?thesis by simp
  next
    case unseen
    from setNewValue_Ok[OF unseen(3)] obtain v where
      t3: "wasmTable s3 = (wasmTable s2)\<lparr>entries := (entries (wasmTable s2))[k := Some v]\<rparr>"
      by blast
    from getEmptyTableSlot_Ok[OF unseen(2)]
    have "entries (wasmTable s2) = entries (wasmTable s) \<or>
          entries (wasmTable s2) = entries (wasmTable s) @ [None]"
      by auto
    with t3 unseen(1,4) show ?thesis by (auto simp: nth_append)
  qed
  then show "length (entries (wasmTable s)) \<le> length (entries (wasmTable s'))"
    and "\<forall>i < length (entries (wasmTable s)). i \<noteq> k \<longrightarrow>
         entries (wasmTable s') ! i = entries (wasmTable s) ! i"
    and "registry s fn \<noteq> None \<Longrightarrow> wasmTable s' = wasmTable s"
    by blast+
next
  assume a: "addFunction h cfg fn sg s = Throw e s'"
  let ?s1 = "s\<lparr>functionsInTableMap := Some (registry s)\<rparr>"
  from addFunction_Throw_cases[OF a] show "registry s fn = None" by simp
  from addFunction_Throw_cases[OF a]
  consider (early) "s' = ?s1"
    | (late) ret s2 where "getEmptyTableSlot ?s1 = Ok ret s2" "setNewValue h cfg ret fn sg s2 = Throw e s'"
    by blast
  then show "take (length (entries (wasmTable s))) (entries (wasmTable s')) = entries (wasmTable s)"
  proof cases
    case early
    then show ?thesis by simp
  next
    case late
    from getEmptyTableSlot_Ok[OF late(1)]
    have "entries (wasmTable s2) = entries (wasmTable s) \<or>
          entries (wasmTable s2) = entries (wasmTable s) @ [None]"
      by auto
    with setNewValue_Throw[OF late(2)] show ?thesis by auto
  qed
qed

text \<open>
  The theorem at the second registration of the example run: slot 1 is returned and
  the entry at index 0 is the one from before.
\<close>

theorem addFunction_changes_only_returned_slot_witness:
  "addFunction fallback_host release_build (WasmFunc 1) None js_added = Ok 1 both_added
   \<and> length (entries (wasmTable js_added)) \<le> length (entries (wasmTable both_added))
   \<and> (0::nat) < length (entries (wasmTable js_added)) \<and> (0::nat) \<noteq> 1
   \<and> entries (wasmTable both_added) ! 0 = entries (wasmTable js_added) ! 0"
  using addFunction_changes_only_returned_slot
          [of fallback_host release_build "WasmFunc 1" None js_added 1 both_added TypeError]
        run_add_wasm_after_js
  by (simp add: js_added_def)

subsection \<open>Growth refused\<close>

text \<open>
  Claim C4. When the free list is empty and the table refuses to grow,
  \<^verbatim>\<open>getEmptyTableSlot\<close> throws the string that tells to set \<^verbatim>\<open>ALLOW_TABLE_GROWTH\<close>, not the
  \<open>RangeError\<close> of the table, and changes nothing. A registration of an unseen callable
  then fails with that string and leaves the free list, the registry and the table as
  they were; the only change is that a map not yet created now is, holding what the scan
  of the table records.
\<close>

theorem getEmptyTableSlot_growth_refused:
  assumes "freeTableIndexes s = []"
    and "table_grow (wasmTable s) 1 = Inl RangeError"
    and "registry s fn = None"
    and "2 \<le> ASSERTIONS cfg \<longrightarrow> Some fn \<notin> set (entries (wasmTable s))"
  shows "getEmptyTableSlot s
           = Throw (ThrownString ''Unable to grow wasm table. Set ALLOW_TABLE_GROWTH.'') s
     \<and> (\<exists>s'. addFunction h cfg fn sg s
           = Throw (ThrownString ''Unable to grow wasm table. Set ALLOW_TABLE_GROWTH.'') s'
         \<and> freeTableIndexes s' = freeTableIndexes s
         \<and> registry s' = registry s
         \<and> wasmTable s' = wasmTable s
         \<and> (functionsInTableMap s \<noteq> None \<longrightarrow> s' = s))"
proof -
  let ?s1 = "s\<lparr>functionsInTableMap := Some (registry s)\<rparr>"
  let ?e = "ThrownString ''Unable to grow wasm table. Set ALLOW_TABLE_GROWTH.''"
  have g: "getEmptyTableSlot s = Throw ?e s"
    using assms(1,2) by (simp add: getEmptyTableSlot_def)
  have g1: "getEmptyTableSlot ?s1 = Throw ?e ?s1"
    using assms(1,2) by (simp add: getEmptyTableSlot_def)
  have a: "addFunction h cfg fn sg s = Throw ?e ?s1"
    using assms(3,4) g1 by (auto simp: addFunction_unseen)
  have r: "registry ?s1 = registry s" by (simp add: registry_def)
  have u: "?s1 = s" if "functionsInTableMap s \<noteq> None"
    using that by (auto simp: registry_def)
  from g a r u show ?thesis by auto
qed

text \<open>
  The theorem at the table of one entry with maximum 1, in a build with
  \<^verbatim>\<open>ASSERTIONS = 2\<close>.
\<close>

theorem getEmptyTableSlot_growth_refused_witness:
  "freeTableIndexes full_table = []
   \<and> table_grow (wasmTable full_table) 1 = Inl RangeError
   \<and> registry full_table (JsFunc 5) = None
   \<and> Some (JsFunc 5) \<notin> set (entries (wasmTable full_table))
   \<and> getEmptyTableSlot full_table
       = Throw (ThrownString ''Unable to grow wasm table. Set ALLOW_TABLE_GROWTH.'') full_table
   \<and> (\<exists>s'. addFunction fallback_host \<lparr>ASSERTIONS = 2, MEMORY64 = False, WASM2JS = False\<rparr>
              (JsFunc 5) (Some ''v'') full_table
           = Throw (ThrownString ''Unable to grow wasm table. Set ALLOW_TABLE_GROWTH.'') s'
         \<and> freeTableIndexes s' = []
         \<and> registry s' (WasmFunc 0) = Some 0
         \<and> entries (wasmTable s') = [Some (WasmFunc 0)])"
proof -
  let ?cfg = "\<lparr>ASSERTIONS = 2, MEMORY64 = False, WASM2JS = False\<rparr>"
  let ?e = "ThrownString ''Unable to grow wasm table. Set ALLOW_TABLE_GROWTH.''"
  have h1: "freeTableIndexes full_table = []"
    by (simp add: full_table_def initial_state_def)
  have h2: "table_grow (wasmTable full_table) 1 = Inl RangeError"
    by (simp add: full_table_def initial_state_def table_grow_def)
  have h3: "registry full_table (JsFunc 5) = None"
    by (simp add: full_table_def initial_state_def registry_def)
  have h4: "Some (JsFunc 5) \<notin> set (entries (wasmTable full_table))"
    by (simp add: full_table_def initial_state_def)
  have r: "registry full_table (WasmFunc 0) = Some 0"
    by (simp add: full_table_def initial_state_def registry_def)
  have e: "entries (wasmTable full_table) = [Some (WasmFunc 0)]"
    by (simp add: full_table_def initial_state_def)
  from getEmptyTableSlot_growth_refused[OF h1 h2 h3, of ?cfg fallback_host "Some ''v''"] h4
  have g: "getEmptyTableSlot full_table = Throw ?e full_table"
    and "\<exists>s'. addFunction fallback_host ?cfg (JsFunc 5) (Some ''v'') full_table = Throw ?e s'
         \<and> freeTableIndexes s' = freeTableIndexes full_table
         \<and> registry s' = registry full_table
         \<and> wasmTable s' = wasmTable full_table"
    by blast+
  then obtain s' where
    a: "addFunction fallback_host ?cfg (JsFunc 5) (Some ''v'') full_table = Throw ?e s'"
    and f: "freeTableIndexes s' = freeTableIndexes full_table"
    and m: "registry s' = registry full_table"
    and t: "wasmTable s' = wasmTable full_table"
    by blast
  from a f m t h1 r e
  have "addFunction fallback_host ?cfg (JsFunc 5) (Some ''v'') full_table = Throw ?e s'
         \<and> freeTableIndexes s' = []
         \<and> registry s' (WasmFunc 0) = Some 0
         \<and> entries (wasmTable s') = [Some (WasmFunc 0)]"
    by simp
  with h1 h2 h3 h4 g show ?thesis by blast
qed

subsection \<open>Release and reuse\<close>

text \<open>
  Claim C3. From the empty table that may grow to two entries, with the free list empty
  and the map not yet created, three distinct callables that exist at the start and can
  be placed (each is an exported function, or can be wrapped with its signature) are
  handled so: the first registration returns slot 0, the second slot 1, releasing slot 0
  puts it on the free list, and the third registration returns slot 0, taken from the
  free list, with the table as long as before.
\<close>

theorem addFunction_reuses_released_slot:
  assumes "distinct [f1, f2, f3]"
    and "made_before n f1 \<and> made_before n f2 \<and> made_before n f3"
    and "exported_function f1 \<or> wrappable h cfg sg1"
    and "exported_function f2 \<or> wrappable h cfg sg2"
    and "exported_function f3 \<or> wrappable h cfg sg3"
    and "case mx of None \<Rightarrow> True | Some m \<Rightarrow> 2 \<le> m"
  shows "\<exists>s1 s2 s3 s4.
      addFunction h cfg f1 sg1 (initial_state \<lparr>entries = [], maximum = mx\<rparr> n) = Ok 0 s1 \<and>
      addFunction h cfg f2 sg2 s1 = Ok 1 s2 \<and>
      removeFunction 0 s2 = Ok () s3 \<and>
      freeTableIndexes s3 = [0] \<and>
      addFunction h cfg f3 sg3 s3 = Ok 0 s4 \<and>
      freeTableIndexes s4 = [] \<and>
      length (entries (wasmTable s4)) = length (entries (wasmTable s3))"
proof -
  let ?s0 = "initial_state \<lparr>entries = [], maximum = mx\<rparr> n"
  from assms(1) have d: "f1 \<noteq> f2" "f2 \<noteq> f1" "f1 \<noteq> f3" "f3 \<noteq> f1" "f2 \<noteq> f3" "f3 \<noteq> f2"
    by auto
  have r0: "registry ?s0 = Map.empty" by (rule registry_initial_empty)
  have g0: "case maximum (wasmTable ?s0) of None \<Rightarrow> True
            | Some m \<Rightarrow> length (entries (wasmTable ?s0)) < m"
    using assms(6) by (simp add: initial_state_def split: option.splits)
  have u1: "registry ?s0 f1 = None" by (simp add: r0)
  have fr0: "freeTableIndexes ?s0 = []" by (simp add: initial_state_def)
  have t1: "Some f1 \<notin> set (entries (wasmTable ?s0))" by (simp add: initial_state_def)
  have z: "entries (wasmTable ?s0) = []" "maximum (wasmTable ?s0) = mx" "allocated ?s0 = n"
    by (simp_all add: initial_state_def)
  from addFunction_unseen_grows[OF u1 _ assms(3) fr0 g0] t1
  obtain s1 v1 where
    a1: "addFunction h cfg f1 sg1 ?s0 = Ok 0 s1" and
    v1: "v1 = f1 \<or> v1 = Wrapped n f1" and
    e1: "entries (wasmTable s1) = [Some v1]" and
    x1: "maximum (wasmTable s1) = mx" and
    fr1: "freeTableIndexes s1 = []" and
    m1: "functionsInTableMap s1 = Some (Map.empty(f1 \<mapsto> 0))" and
    al1: "n \<le> allocated s1" "allocated s1 \<le> Suc n"
    by (auto simp: r0 z)
  have r1: "registry s1 = Map.empty(f1 \<mapsto> 0)" by (simp add: registry_def m1)
  have u2: "registry s1 f2 = None" using d by (simp add: r1)
  have t2: "Some f2 \<notin> set (entries (wasmTable s1))"
    using d assms(2) v1 made_before_not_Wrapped[of n f2 n f1] by (auto simp: e1)
  have g1: "case maximum (wasmTable s1) of None \<Rightarrow> True
            | Some m \<Rightarrow> length (entries (wasmTable s1)) < m"
    using assms(6) by (simp add: x1 e1 split: option.splits)
  from addFunction_unseen_grows[OF u2 _ assms(4) fr1 g1] t2
  obtain s2 v2 where
    a2: "addFunction h cfg f2 sg2 s1 = Ok 1 s2" and
    v2: "v2 = f2 \<or> v2 = Wrapped (allocated s1) f2" and
    e2: "entries (wasmTable s2) = [Some v1, Some v2]" and
    fr2: "freeTableIndexes s2 = []" and
    m2: "functionsInTableMap s2 = Some (Map.empty(f1 \<mapsto> 0, f2 \<mapsto> 1))"
    by (auto simp: e1 r1)
  define s3 where "s3 = s2\<lparr>functionsInTableMap := Some ((Map.empty(f1 \<mapsto> 0, f2 \<mapsto> 1))(v1 := None)),
                           freeTableIndexes := [0]\<rparr>"
  have rm: "removeFunction 0 s2 = Ok () s3"
    by (simp add: removeFunction_def m2 table_get_def e2 fr2 s3_def)
  have fr3: "freeTableIndexes s3 = [] @ [0]" by (simp add: s3_def)
  have e3: "entries (wasmTable s3) = [Some v1, Some v2]" by (simp add: s3_def e2)
  have u3: "registry s3 f3 = None"
    using d by (simp add: registry_def s3_def)
  have t3: "Some f3 \<notin> set (entries (wasmTable s3))"
    using d assms(2) v1 v2 al1 made_before_not_Wrapped[of n f3 n f1]
      made_before_not_Wrapped[of n f3 "allocated s1" f2]
    by (auto simp: e3)
  have k3: "0 < length (entries (wasmTable s3))" by (simp add: e3)
  from addFunction_unseen_reuses[OF u3 _ assms(5) fr3 k3] t3
  obtain s4 where
    a4: "addFunction h cfg f3 sg3 s3 = Ok 0 s4" and
    fr4: "freeTableIndexes s4 = []" and
    e4: "length (entries (wasmTable s4)) = length (entries (wasmTable s3))"
    by auto
  from a1 a2 rm fr3 a4 fr4 e4 show ?thesis by auto
qed

text \<open>
  The theorem at a JavaScript function followed by two WebAssembly functions.
\<close>

theorem addFunction_reuses_released_slot_witness:
  "distinct [JsFunc 0, WasmFunc 1, WasmFunc 2]
   \<and> made_before 0 (JsFunc 0) \<and> made_before 0 (WasmFunc 1) \<and> made_before 0 (WasmFunc 2)
   \<and> wrappable fallback_host release_build (Some ''v'')
   \<and> exported_function (WasmFunc 1) \<and> exported_function (WasmFunc 2)
   \<and> (\<exists>s1 s2 s3 s4.
        addFunction fallback_host release_build (JsFunc 0) (Some ''v'')
          (initial_state \<lparr>entries = [], maximum = None\<rparr> 0) = Ok 0 s1 \<and>
        addFunction fallback_host release_build (WasmFunc 1) None s1 = Ok 1 s2 \<and>
        removeFunction 0 s2 = Ok () s3 \<and>
        freeTableIndexes s3 = [0] \<and>
        addFunction fallback_host release_build (WasmFunc 2) None s3 = Ok 0 s4 \<and>
        freeTableIndexes s4 = [] \<and>
        length (entries (wasmTable s4)) = length (entries (wasmTable s3)))"
  using addFunction_reuses_released_slot
          [of "JsFunc 0" "WasmFunc 1" "WasmFunc 2" 0 fallback_host release_build "Some ''v''"
              None None None]
        wrappable_v
  by simp

subsection \<open>Releasing the slot of a JavaScript function\<close>

text \<open>
  Claim C1, at the input where the code departs from it. A JavaScript function is
  registered with signature \<^verbatim>\<open>"v"\<close>: it gets slot 0, and the table entry at 0 is the
  wrapper, not the function. \<^verbatim>\<open>removeFunction(0)\<close> deletes the key it reads from the table,
  the wrapper, which the map does not have: slot 0 goes on the free list and the table
  is unchanged, but the map still sends the function to slot 0.
\<close>

theorem removeFunction_keeps_js_registration:
  "addFunction fallback_host release_build (JsFunc 0) (Some ''v'')
     (initial_state empty_table 0) = Ok 0 js_added
   \<and> entries (wasmTable js_added) ! 0 = Some (Wrapped 0 (JsFunc 0))
   \<and> registry js_added (JsFunc 0) = Some 0
   \<and> removeFunction 0 js_added = Ok () js_removed
   \<and> freeTableIndexes js_removed = [0]
   \<and> wasmTable js_removed = wasmTable js_added
   \<and> registry js_removed (JsFunc 0) = Some 0"
  using run_add_js run_remove_js
  by (simp add: registry_def js_removed_def js_added_def)

text \<open>
  Claim C9, at the input where the code departs from it. After the run above a
  WebAssembly function is registered and gets the released slot 0; the JavaScript
  function is registered again and is given slot 0 too, from the entry the map kept.
  Both registrations are live and hold slot 0, whose table entry is the WebAssembly
  function.
\<close>

theorem stale_registration_shares_slot:
  "addFunction fallback_host release_build (JsFunc 0) (Some ''v'')
     (initial_state empty_table 0) = Ok 0 js_added
   \<and> removeFunction 0 js_added = Ok () js_removed
   \<and> addFunction fallback_host release_build (WasmFunc 1) None js_removed = Ok 0 slot_reused
   \<and> addFunction fallback_host release_build (JsFunc 0) (Some ''v'') slot_reused
       = Ok 0 slot_reused
   \<and> registry slot_reused (JsFunc 0) = Some 0
   \<and> registry slot_reused (WasmFunc 1) = Some 0
   \<and> entries (wasmTable slot_reused) = [Some (WasmFunc 1)]"
  using run_add_js run_remove_js run_add_wasm_after_remove run_add_js_again
  by (simp add: registry_def slot_reused_def)

end
